theory Spec2Isabelle
  imports Main "HOL-Library.Word"
begin

section \<open>The PowerToys updater (src/Update/PowerToys.Update.cpp)\<close>

text \<open>
  The updater is one translation unit with five functions: \<open>CopySelfToTempDir\<close>,
  \<open>ObtainInstaller\<close>, \<open>InstallNewVersionStage1\<close>, \<open>InstallNewVersionStage2\<close> and
  \<open>WinMain\<close>. Everything they touch outside the process (the persisted update record,
  the file system, the logger, process launches) is a field of the record \<open>world\<close>, which
  every function takes and returns. Everything the outside decides in one process run
  (the answer of the version query, the outcome of a download, of a copy, of a launch, of
  an installation, the clock) is a field of the record \<open>env\<close>. The constants and fixed
  paths that the file takes from headers are the fields of \<open>config\<close>. A function that can
  be left by an exception returns a sum, with the exception on the left.
\<close>

subsection \<open>Paths\<close>

text \<open>
  A value of \<open>fs::path\<close> in its decomposition: the root name (a drive such as \<open>C:\<close>, or
  empty), whether a root directory follows it, and the filenames of the relative path in
  order. A trailing directory separator is an empty last filename, so the empty path has
  no filename at all and \<open>dir\<close> followed by a separator has the filenames \<open>dir\<close> and the
  empty one.
\<close>

datatype path = Path (root_name: string) (root_directory: bool) (filenames: "string list")

definition empty_path :: path where
  "empty_path = Path [] False []"

text \<open>The path that a plain filename converts to.\<close>

definition filename_path :: "string \<Rightarrow> path" where
  "filename_path name = Path [] False [name]"

definition is_absolute :: "path \<Rightarrow> bool" where
  "is_absolute p = (root_name p \<noteq> [] \<and> root_directory p)"

definition has_filename :: "path \<Rightarrow> bool" where
  "has_filename p = (filenames p \<noteq> [] \<and> last (filenames p) \<noteq> [])"

text \<open>
  \<open>operator/\<close> of \<open>fs::path\<close>, as the C++ standard defines \<open>operator/=\<close>: an absolute right
  operand, or one with a different root name, replaces the left operand; a right operand
  with a root directory keeps only the root name of the left operand; otherwise a
  separator is appended to the left operand when it ends in a filename, and then the
  right operand without its root name.
\<close>

definition path_append :: "path \<Rightarrow> path \<Rightarrow> path" where
  "path_append p q =
     (if is_absolute q \<or> (root_name q \<noteq> [] \<and> root_name q \<noteq> root_name p) then q
      else if root_directory q then Path (root_name p) True (filenames q)
      else if filenames p = [] then Path (root_name p) (root_directory p) (filenames q)
      else
        Path (root_name p) (root_directory p)
          ((if has_filename p then filenames p else butlast (filenames p))
           @ (if filenames q = [] then [[]] else filenames q)))"

text \<open>\<open>native()\<close> and \<open>c_str()\<close>: the path as one string, with backslashes as separators.\<close>

fun join_filenames :: "string list \<Rightarrow> string" where
  "join_filenames [] = []"
| "join_filenames [name] = name"
| "join_filenames (name # names) = name @ CHR 0x5C # join_filenames names"

definition native :: "path \<Rightarrow> string" where
  "native p =
     root_name p @ (if root_directory p then [CHR 0x5C] else []) @ join_filenames (filenames p)"

text \<open>
  The file that a path names is found after the empty filenames and the filenames \<open>.\<close>
  have been dropped and each filename \<open>..\<close> has removed the filename before it (at the
  root directory it has nothing to remove). Names are compared as written, a relative
  path stays relative, and there are no links.
\<close>

definition normal_step :: "bool \<Rightarrow> string list \<Rightarrow> string \<Rightarrow> string list" where
  "normal_step rooted names name =
     (if name = [] \<or> name = ''.'' then names
      else if name = ''..'' then
        (if names \<noteq> [] \<and> last names \<noteq> ''..'' then butlast names
         else if rooted then names
         else names @ [name])
      else names @ [name])"

definition resolve :: "path \<Rightarrow> path" where
  "resolve p =
     Path (root_name p) (root_directory p)
       (foldl (normal_step (root_directory p)) [] (filenames p))"

subsection \<open>Persisted update record\<close>

text \<open>
  Modelled from the spec: the declaration of \<open>UpdateState\<close>
  (common/updating/updateState.h) is not part of the sources. The spec (section 3) lists
  the four values of \<open>state\<close>. The file uses \<open>githubUpdateLastCheckedDate\<close> through
  \<open>emplace\<close> (an optional) and \<open>downloadedInstallerFilename\<close> only as the right operand of
  \<open>operator/\<close>, which takes it as a path; the record holds that path, the empty path when
  no filename is recorded.
\<close>

datatype State = upToDate | errorDownloading | readyToDownload | readyToInstall

record UpdateState =
  githubUpdateLastCheckedDate :: "int option"
  state :: State
  downloadedInstallerFilename :: path

text \<open>
  Modelled from the spec: the value of a default-constructed record (\<open>state = {}\<close> in the
  three mutators), which section 4.1 describes as the initial ready-to-download state with
  no timestamp and no filename.
\<close>

definition default_UpdateState :: UpdateState where
  "default_UpdateState =
     \<lparr>githubUpdateLastCheckedDate = None, state = readyToDownload,
      downloadedInstallerFilename = empty_path\<rparr>"

text \<open>The invariant of section 3: a filename is recorded exactly in state \<open>readyToInstall\<close>.\<close>

definition UpdateState_inv :: "UpdateState \<Rightarrow> bool" where
  "UpdateState_inv s =
     ((downloadedInstallerFilename s \<noteq> empty_path) = (state s = readyToInstall))"

subsection \<open>Version query result\<close>

text \<open>
  Modelled from the spec: the two alternatives of the variant returned by
  \<open>get_github_version_info_async\<close> (common/updating/updating.h); the download information
  carries the URL and the expected local filename (spec, section 3). A failed query is
  \<open>None\<close> of the surrounding option.
\<close>

datatype github_version_info =
    version_up_to_date
  | new_version_download_info (downloadUrl: string) (expectedFilename: path)

subsection \<open>Outside world\<close>

text \<open>
  The file system maps the path of a file, as \<open>resolve\<close> returns it, to what is there: a
  regular file with its content, a directory, or something whose status the operating
  system refuses to report (the status query fails with an error other than "not
  found").
\<close>

datatype entry = RegularFile string | Directory | Inaccessible

type_synonym filesystem = "path \<rightharpoonup> entry"

datatype exception = filesystem_error

datatype log_entry = LogError string | LogWarning string | LogInfo string

text \<open>
  What a process started by \<open>ShellExecuteExW\<close> does: it exits so many milliseconds after
  its launch with an exit code, or it never exits.
\<close>

datatype process_run = ExitsAfter nat "32 word" | NeverExits

record world =
  persisted :: UpdateState
  stored :: "UpdateState list"
  files :: filesystem
  downloads :: nat
  logged :: "log_entry list"
  launched :: "(string \<times> string list) list"
  close_requests :: nat

text \<open>
  \<open>persisted\<close> is the record that \<open>UpdateState::read\<close> returns; \<open>stored\<close> is the history of
  the records written by \<open>UpdateState::store\<close>, oldest first; \<open>downloads\<close> counts the calls of
  \<open>download_new_version\<close>; \<open>launched\<close> lists the processes started, each with its file and the
  arguments the started process receives after its own name; \<open>close_requests\<close> counts the
  \<open>WM_CLOSE\<close> messages sent to the tray window.
\<close>

record env =
  version_info :: "github_version_info option"
  download_result :: "string option"
  delete_fails :: "path list"
  copy_error :: "string option"
  tray_window_found :: bool
  shell_execute_ok :: bool
  msi_result :: "32 word"
  installer_process :: process_run
  now :: int

record config =
  UPDATE_NOW_LAUNCH_STAGE1 :: string
  UPDATE_NOW_LAUNCH_STAGE2 :: string
  pending_updates_path :: path
  temp_path :: path
  module_filename :: path

text \<open>
  \<open>temp_path\<close> is the directory that the operating system names as the temporary
  directory; \<open>module_filename\<close> is the path that \<open>get_module_filename\<close> returns.
\<close>

subsection \<open>Library helpers\<close>

text \<open>The logger appends to the list of logged entries; the level is the constructor.\<close>

definition Logger_error :: "string \<Rightarrow> world \<Rightarrow> world" where
  "Logger_error msg w = w\<lparr>logged := logged w @ [LogError msg]\<rparr>"

definition Logger_info :: "string \<Rightarrow> world \<Rightarrow> world" where
  "Logger_info msg w = w\<lparr>logged := logged w @ [LogInfo msg]\<rparr>"

text \<open>
  Modelled from the spec: \<open>UpdateState::read\<close> and \<open>UpdateState::store\<close>
  (common/updating/updateState) are not part of the sources. Section 4.1: \<open>read\<close> returns
  the current record and never fails; \<open>store\<close> applies the mutator to a freshly read
  record and writes the whole result back.
\<close>

definition UpdateState_read :: "world \<Rightarrow> UpdateState" where
  "UpdateState_read w = persisted w"

definition UpdateState_store :: "(UpdateState \<Rightarrow> UpdateState) \<Rightarrow> world \<Rightarrow> world" where
  "UpdateState_store mutator w =
     (let r = mutator (UpdateState_read w)
      in w\<lparr>persisted := r, stored := stored w @ [r]\<rparr>)"

text \<open>
  \<open>fs::status\<close> and \<open>fs::exists\<close> in their throwing overloads. The empty path names
  nothing. A path with a trailing separator names a directory only. A status that the
  operating system refuses to report is a \<open>filesystem_error\<close>. \<open>fs::exists\<close> is true of a
  directory as well as of a regular file.
\<close>

definition fs_status :: "filesystem \<Rightarrow> path \<Rightarrow> exception + entry option" where
  "fs_status fs p =
     (if p = empty_path then Inr None
      else
        (case fs (resolve p) of
           None \<Rightarrow> Inr None
         | Some Inaccessible \<Rightarrow> Inl filesystem_error
         | Some Directory \<Rightarrow> Inr (Some Directory)
         | Some (RegularFile content) \<Rightarrow>
             if filenames p \<noteq> [] \<and> last (filenames p) = [] then Inr None
             else Inr (Some (RegularFile content))))"

definition fs_exists :: "filesystem \<Rightarrow> path \<Rightarrow> exception + bool" where
  "fs_exists fs p =
     (case fs_status fs p of Inl ex \<Rightarrow> Inl ex | Inr st \<Rightarrow> Inr (st \<noteq> None))"

text \<open>
  \<open>fs::temp_directory_path\<close> in its throwing overload: the C++ standard has it report an
  error unless the path it is about to return exists and is a directory.
\<close>

definition fs_temp_directory_path :: "config \<Rightarrow> filesystem \<Rightarrow> exception + path" where
  "fs_temp_directory_path c fs =
     (case fs_status fs (temp_path c) of
        Inr (Some Directory) \<Rightarrow> Inr (temp_path c)
      | _ \<Rightarrow> Inl filesystem_error)"

definition in_directory :: "path \<Rightarrow> path \<Rightarrow> bool" where
  "in_directory d p =
     (root_name p = root_name d \<and> root_directory p = root_directory d
      \<and> length (filenames d) < length (filenames p)
      \<and> take (length (filenames d)) (filenames p) = filenames d)"

definition ends_with :: "string \<Rightarrow> string \<Rightarrow> bool" where
  "ends_with s suffix =
     (length suffix \<le> length s \<and> drop (length s - length suffix) s = suffix)"

definition towlower :: "char \<Rightarrow> char" where
  "towlower ch =
     (case map_of (zip ''ABCDEFGHIJKLMNOPQRSTUVWXYZ'' ''abcdefghijklmnopqrstuvwxyz'') ch of
        Some lower \<Rightarrow> lower
      | None \<Rightarrow> ch)"

text \<open>
  \<open>fs::copy_file\<close> with \<open>copy_options::overwrite_existing\<close> and an \<open>error_code\<close>: it reports
  an error when the operating system does, when the source is not a regular file, when
  the destination exists and is not a regular file, and when source and destination are
  the same file; otherwise the destination holds the content of the source afterwards,
  whether or not it existed before. It throws nothing.
\<close>

definition copy_file_overwrite ::
  "env \<Rightarrow> path \<Rightarrow> path \<Rightarrow> filesystem \<Rightarrow> string + filesystem" where
  "copy_file_overwrite e from to fs =
     (case copy_error e of
        Some msg \<Rightarrow> Inl msg
      | None \<Rightarrow>
          (case fs_status fs from of
             Inr (Some (RegularFile content)) \<Rightarrow>
               (case fs_status fs to of
                  Inr None \<Rightarrow> Inr (fs(resolve to \<mapsto> RegularFile content))
                | Inr (Some (RegularFile earlier)) \<Rightarrow>
                    if resolve from = resolve to then Inl ''file exists''
                    else Inr (fs(resolve to \<mapsto> RegularFile content))
                | _ \<Rightarrow> Inl ''not a regular file'')
           | _ \<Rightarrow> Inl ''no such file''))"

text \<open>
  Modelled from the spec: \<open>cleanup_updates\<close> (common/updating) is not part of the sources,
  and the call passes no argument. Section 4.3, step 5: it removes the stale previously
  downloaded artifacts of the pending-updates directory that do not match the current
  target filename, best-effort (a deletion that fails is logged and the file stays; the
  spec does not give the text of the entry). Section 8: it never deletes the artifact
  referenced by a \<open>readyToInstall\<close> record. So a file is stale when it lies in the
  pending-updates directory, is not the target of the newly offered version and is not the
  artifact the persisted record refers to; the artifacts are the regular files.
\<close>

definition stale_artifact :: "config \<Rightarrow> UpdateState \<Rightarrow> path \<Rightarrow> path \<Rightarrow> bool" where
  "stale_artifact c st target p =
     (in_directory (resolve (pending_updates_path c)) p
      \<and> p \<noteq> resolve (path_append (pending_updates_path c) target)
      \<and> \<not> (state st = readyToInstall
           \<and> p = resolve (path_append (pending_updates_path c)
                            (downloadedInstallerFilename st))))"

definition is_regular_file :: "filesystem \<Rightarrow> path \<Rightarrow> bool" where
  "is_regular_file fs p = (case fs p of Some (RegularFile content) \<Rightarrow> True | _ \<Rightarrow> False)"

definition cleanup_updates :: "config \<Rightarrow> env \<Rightarrow> path \<Rightarrow> world \<Rightarrow> world" where
  "cleanup_updates c e target w =
     (let doomed = (\<lambda>p. stale_artifact c (UpdateState_read w) target p
                         \<and> is_regular_file (files w) p)
      in w\<lparr>files := (\<lambda>p. if doomed p \<and> p \<notin> set (delete_fails e) then None else files w p),
           logged := logged w
             @ map (\<lambda>p. LogWarning (''Failed to delete installer file: '' @ native p))
                 (filter doomed (delete_fails e))\<rparr>)"

text \<open>
  Modelled from the spec: \<open>download_new_version\<close> (common/updating) is not part of the
  sources. Section 4.3 and scenario B: it downloads the artifact into the pending-updates
  directory under the expected filename and returns that path, or reports failure.
\<close>

definition download_new_version ::
  "config \<Rightarrow> env \<Rightarrow> github_version_info \<Rightarrow> world \<Rightarrow> path option \<times> world" where
  "download_new_version c e info w =
     (let w1 = w\<lparr>downloads := Suc (downloads w)\<rparr>;
          dst = path_append (pending_updates_path c) (expectedFilename info)
      in case download_result e of
           None \<Rightarrow> (None, w1)
         | Some content \<Rightarrow>
             (Some dst, w1\<lparr>files := (files w1)(resolve dst \<mapsto> RegularFile content)\<rparr>))"

text \<open>
  \<open>WaitForSingleObject\<close> on a process handle returns when the process has exited or
  when the timeout (in milliseconds) has elapsed, whichever is first; the model returns
  the time of that moment, counted from the launch. \<open>GetExitCodeProcess\<close> stores the
  exit code of a process that has exited by the time of the call, and \<open>STILL_ACTIVE\<close>
  (259) for one that has not.
\<close>

definition WaitForSingleObject :: "process_run \<Rightarrow> nat \<Rightarrow> nat" where
  "WaitForSingleObject p timeout =
     (case p of ExitsAfter t code \<Rightarrow> min t timeout | NeverExits \<Rightarrow> timeout)"

definition GetExitCodeProcess :: "process_run \<Rightarrow> nat \<Rightarrow> 32 word" where
  "GetExitCodeProcess p at_time =
     (case p of
        ExitsAfter t code \<Rightarrow> if t \<le> at_time then code else 259
      | NeverExits \<Rightarrow> 259)"

subsection \<open>The functions of the file\<close>

text \<open>
  \<open>CopySelfToTempDir\<close>: the call of \<open>fs::temp_directory_path\<close> takes no \<open>error_code\<close>, so
  its error leaves the function as an exception; the error of \<open>fs::copy_file\<close> is logged
  and gives \<open>nullopt\<close>.
\<close>

definition CopySelfToTempDir ::
  "config \<Rightarrow> env \<Rightarrow> world \<Rightarrow> (exception + path option) \<times> world" where
  "CopySelfToTempDir c e w =
     (case fs_temp_directory_path c (files w) of
        Inl ex \<Rightarrow> (Inl ex, w)
      | Inr tmp \<Rightarrow>
          (let dst_path = path_append tmp (filename_path ''PowerToys.Update.exe'')
           in case copy_file_overwrite e (module_filename c) dst_path (files w) of
                Inl msg \<Rightarrow>
                  (Inr None, Logger_error (''Failed to copy to temp directory: '' @ msg) w)
              | Inr fs \<Rightarrow> (Inr (Some dst_path), w\<lparr>files := fs\<rparr>)))"

text \<open>
  \<open>ObtainInstaller\<close> returns the optional installer path together with the value it
  leaves in its reference parameter \<open>isUpToDate\<close>, unless the call of \<open>fs::exists\<close>, which
  takes no \<open>error_code\<close>, throws.
\<close>

definition State_name :: "State \<Rightarrow> string" where
  "State_name s =
     (case s of upToDate \<Rightarrow> ''upToDate'' | errorDownloading \<Rightarrow> ''errorDownloading''
      | readyToDownload \<Rightarrow> ''readyToDownload'' | readyToInstall \<Rightarrow> ''readyToInstall'')"

definition ObtainInstaller ::
  "config \<Rightarrow> env \<Rightarrow> world \<Rightarrow> (exception + path option \<times> bool) \<times> world" where
  "ObtainInstaller c e w =
     (let st = UpdateState_read w
      in case version_info e of
           None \<Rightarrow>
             (Inr (None, False),
              Logger_error ''Failed to retrieve version info. Check your network connection.'' w)
         | Some version_up_to_date \<Rightarrow>
             (Inr (None, True), Logger_info ''PowerToys is already up to date.'' w)
         | Some (new_version_download_info url filename) \<Rightarrow>
             (let w1 = cleanup_updates c e filename w
              in if state st = readyToDownload \<or> state st = errorDownloading then
                   (case download_new_version c e (new_version_download_info url filename) w1 of
                      (None, w2) \<Rightarrow>
                        (Inr (None, False),
                         Logger_error ''Failed to download new installer.'' w2)
                    | (Some downloaded_installer, w2) \<Rightarrow>
                        (Inr (Some downloaded_installer, False), w2))
                 else if state st = readyToInstall then
                   (let installer =
                          path_append (pending_updates_path c) (downloadedInstallerFilename st)
                    in case fs_exists (files w1) installer of
                         Inl ex \<Rightarrow> (Inl ex, w1)
                       | Inr False \<Rightarrow>
                           (Inr (None, False),
                            Logger_error (''Installer file not found: '' @ native installer) w1)
                       | Inr True \<Rightarrow> (Inr (Some installer, False), w1))
                 else
                   (Inr (None, False),
                    Logger_error (''Unexpected update state: '' @ State_name (state st)) w1)))"

text \<open>
  \<open>InstallNewVersionStage1\<close>: the parameters of the launch are the stage-2 action followed
  by the quoted installer path, which the started process receives as two arguments. (The
  source builds the string on line 106 with a \<open>+\<close> between a string literal and
  \<open>c_str()\<close>, two pointers; the model takes the concatenation that the line means.) An
  exception of \<open>CopySelfToTempDir\<close> passes through.
\<close>

definition InstallNewVersionStage1 ::
  "config \<Rightarrow> env \<Rightarrow> path \<Rightarrow> world \<Rightarrow> (exception + bool) \<times> world" where
  "InstallNewVersionStage1 c e installer w =
     (case CopySelfToTempDir c e w of
        (Inl ex, w1) \<Rightarrow> (Inl ex, w1)
      | (Inr None, w1) \<Rightarrow> (Inr False, w1)
      | (Inr (Some temp_exe), w1) \<Rightarrow>
          (let w2 = (if tray_window_found e
                     then w1\<lparr>close_requests := Suc (close_requests w1)\<rparr> else w1)
           in if shell_execute_ok e
              then (Inr True,
                    w2\<lparr>launched :=
                         launched w2
                         @ [(native temp_exe, [UPDATE_NOW_LAUNCH_STAGE2 c, native installer])]\<rparr>)
              else (Inr False, w2)))"

definition InstallNewVersionStage2 :: "env \<Rightarrow> string \<Rightarrow> world \<Rightarrow> bool \<times> world" where
  "InstallNewVersionStage2 e installer_path0 w =
     (let installer_path = map towlower installer_path0;
          (success, w1) =
            (if ends_with installer_path ''.msi'' then (msi_result e = 0, w)
             else if shell_execute_ok e then
               (let returned_at = WaitForSingleObject (installer_process e) 60000;
                    exitCode = GetExitCodeProcess (installer_process e) returned_at
                in (exitCode = 0,
                    w\<lparr>launched :=
                        launched w @ [(installer_path, [''/passive'', ''/norestart''])]\<rparr>))
             else (False, w))
      in if \<not> success then (False, Logger_error (''Installer failed: '' @ installer_path) w1)
         else (True,
               UpdateState_store
                 (\<lambda>s. default_UpdateState
                        \<lparr>githubUpdateLastCheckedDate := Some (now e), state := upToDate\<rparr>) w1))"

text \<open>
  \<open>WinMain\<close> receives the result of \<open>CommandLineToArgvW\<close>: \<open>None\<close> for a null pointer,
  otherwise the argument vector. It returns the exit code, or a fault: where the source
  reads \<open>args[2]\<close> beyond the \<open>nArgs\<close> elements of the vector, and where an exception
  reaches \<open>WinMain\<close>, which has no handler, so that the process ends there.
\<close>

datatype fault = ArgsOutOfRange | UncaughtException exception

definition WinMain :: "config \<Rightarrow> env \<Rightarrow> string list option \<Rightarrow> world \<Rightarrow> (fault + int) \<times> world" where
  "WinMain c e argv w =
     (case argv of
        None \<Rightarrow> (Inr 1, Logger_error ''Invalid command-line arguments.'' w)
      | Some args \<Rightarrow>
          if length args < 2 then (Inr 1, Logger_error ''Invalid command-line arguments.'' w)
          else
            (let action = args ! 1
             in if action = UPDATE_NOW_LAUNCH_STAGE1 c then
                  (case ObtainInstaller c e w of
                     (Inl ex, w1) \<Rightarrow> (Inl (UncaughtException ex), w1)
                   | (Inr (installer, isUpToDate), w1) \<Rightarrow>
                       (case (case installer of
                                None \<Rightarrow> (Inr False, w1)
                              | Some p \<Rightarrow> InstallNewVersionStage1 c e p w1) of
                          (Inl ex, w2) \<Rightarrow> (Inl (UncaughtException ex), w2)
                        | (Inr launched_ok, w2) \<Rightarrow>
                            if \<not> launched_ok then
                              (Inr 0,
                               UpdateState_store
                                 (\<lambda>s. default_UpdateState
                                        \<lparr>githubUpdateLastCheckedDate := Some (now e),
                                         state := (if isUpToDate then upToDate
                                                   else errorDownloading)\<rparr>) w2)
                            else (Inr 0, w2)))
                else if action = UPDATE_NOW_LAUNCH_STAGE2 c then
                  (if length args < 3 then (Inl ArgsOutOfRange, w)
                   else
                     (case InstallNewVersionStage2 e (args ! 2) w of
                        (ok, w1) \<Rightarrow>
                          if \<not> ok then
                            (Inr 0,
                             UpdateState_store
                               (\<lambda>s. default_UpdateState
                                      \<lparr>githubUpdateLastCheckedDate := Some (now e),
                                       state := errorDownloading\<rparr>) w1)
                          else (Inr 0, w1)))
                else (Inr 1, Logger_error (''Invalid action specified: '' @ action) w)))"

text \<open>
  A complete update run: the stage-1 process, and, when it has started the relocated
  copy, the stage-2 process with the arguments that stage 1 passed.
\<close>

definition update_run :: "config \<Rightarrow> env \<Rightarrow> env \<Rightarrow> world \<Rightarrow> world" where
  "update_run c e1 e2 w =
     (let w1 = snd (WinMain c e1
                     (Some [native (module_filename c), UPDATE_NOW_LAUNCH_STAGE1 c]) w)
      in case drop (length (launched w)) (launched w1) of
           [] \<Rightarrow> w1
         | (exe, arguments) # _ \<Rightarrow> snd (WinMain c e2 (Some (exe # arguments)) w1))"

subsection \<open>Example inputs\<close>

text \<open>
  A configuration, one process environment and a world on which the theorems below are
  instantiated: a newer version is offered, the download works, the relocation and both
  launches work, and the installer exits after five seconds with code 0.
\<close>

definition example_config :: config where
  "example_config =
     \<lparr>UPDATE_NOW_LAUNCH_STAGE1 = ''-update_now'',
      UPDATE_NOW_LAUNCH_STAGE2 = ''-update_now_stage_2'',
      pending_updates_path = Path ''C:'' True [''Updates''],
      temp_path = Path ''C:'' True [''Temp''],
      module_filename = Path ''C:'' True [''PowerToys'', ''PowerToys.Update.exe'']\<rparr>"

definition example_env :: env where
  "example_env =
     \<lparr>version_info =
        Some (new_version_download_info ''https://example.org/setup.exe''
                (filename_path ''setup.exe'')),
      download_result = Some ''installer'',
      delete_fails = [],
      copy_error = None,
      tray_window_found = True,
      shell_execute_ok = True,
      msi_result = 0,
      installer_process = ExitsAfter 5000 0,
      now = 1700000000\<rparr>"

definition example_world :: world where
  "example_world =
     \<lparr>persisted = default_UpdateState,
      stored = [],
      files =
        [Path ''C:'' True [''PowerToys'', ''PowerToys.Update.exe''] \<mapsto> RegularFile ''updater'',
         Path ''C:'' True [''Temp''] \<mapsto> Directory,
         Path ''C:'' True [''Updates''] \<mapsto> Directory],
      downloads = 0,
      logged = [],
      launched = [],
      close_requests = 0\<rparr>"

text \<open>
  Two worlds whose persisted record is \<open>readyToInstall\<close>: in the first the recorded
  artifact lies in the pending-updates directory beside a leftover file, in the second the
  pending-updates directory is empty. In a third world the temporary directory does not
  exist.
\<close>

definition example_ready_world :: world where
  "example_ready_world =
     example_world
       \<lparr>persisted :=
          \<lparr>githubUpdateLastCheckedDate = Some 1600000000, state = readyToInstall,
           downloadedInstallerFilename = filename_path ''setup-old.exe''\<rparr>,
        files :=
          [Path ''C:'' True [''PowerToys'', ''PowerToys.Update.exe''] \<mapsto> RegularFile ''updater'',
           Path ''C:'' True [''Temp''] \<mapsto> Directory,
           Path ''C:'' True [''Updates''] \<mapsto> Directory,
           Path ''C:'' True [''Updates'', ''setup-old.exe''] \<mapsto> RegularFile ''old installer'',
           Path ''C:'' True [''Updates'', ''leftover.exe''] \<mapsto> RegularFile ''stale'']\<rparr>"

definition example_missing_world :: world where
  "example_missing_world =
     example_world
       \<lparr>persisted :=
          \<lparr>githubUpdateLastCheckedDate = Some 1600000000, state = readyToInstall,
           downloadedInstallerFilename = filename_path ''setup-old.exe''\<rparr>\<rparr>"

definition example_no_temp_world :: world where
  "example_no_temp_world =
     example_world
       \<lparr>files :=
          [Path ''C:'' True [''PowerToys'', ''PowerToys.Update.exe''] \<mapsto> RegularFile ''updater'',
           Path ''C:'' True [''Updates''] \<mapsto> Directory]\<rparr>"

section \<open>Auxiliary lemmas\<close>

lemmas fixture_defs = example_config_def example_env_def example_world_def
  example_ready_world_def example_missing_world_def example_no_temp_world_def
  default_UpdateState_def empty_path_def filename_path_def

lemmas path_defs = path_append_def is_absolute_def has_filename_def resolve_def
  normal_step_def native_def fs_status_def fs_exists_def fs_temp_directory_path_def
  in_directory_def is_regular_file_def empty_path_def filename_path_def

lemmas run_defs = update_run_def WinMain_def ObtainInstaller_def cleanup_updates_def
  stale_artifact_def download_new_version_def InstallNewVersionStage1_def
  InstallNewVersionStage2_def CopySelfToTempDir_def copy_file_overwrite_def
  UpdateState_store_def UpdateState_read_def Logger_error_def Logger_info_def
  GetExitCodeProcess_def WaitForSingleObject_def ends_with_def towlower_def Let_def

lemma UpdateState_store_simps:
  "persisted (UpdateState_store f w) = f (persisted w)"
  "stored (UpdateState_store f w) = stored w @ [f (persisted w)]"
  "files (UpdateState_store f w) = files w"
  "downloads (UpdateState_store f w) = downloads w"
  "logged (UpdateState_store f w) = logged w"
  "launched (UpdateState_store f w) = launched w"
  "close_requests (UpdateState_store f w) = close_requests w"
  by (simp_all add: UpdateState_store_def UpdateState_read_def Let_def)

lemma cleanup_updates_simps:
  "persisted (cleanup_updates c e t w) = persisted w"
  "stored (cleanup_updates c e t w) = stored w"
  "downloads (cleanup_updates c e t w) = downloads w"
  "launched (cleanup_updates c e t w) = launched w"
  "close_requests (cleanup_updates c e t w) = close_requests w"
  by (simp_all add: cleanup_updates_def Let_def)

lemma cleanup_updates_files:
  "files (cleanup_updates c e t w) p =
     (if stale_artifact c (persisted w) t p \<and> is_regular_file (files w) p
         \<and> p \<notin> set (delete_fails e)
      then None else files w p)"
  by (simp add: cleanup_updates_def UpdateState_read_def Let_def)

lemma cleanup_updates_referenced:
  "state (persisted w) = readyToInstall \<Longrightarrow>
   files (cleanup_updates c e t w)
     (resolve (path_append (pending_updates_path c) (downloadedInstallerFilename (persisted w))))
   = files w
     (resolve (path_append (pending_updates_path c) (downloadedInstallerFilename (persisted w))))"
  by (simp add: cleanup_updates_files stale_artifact_def)

lemma cleanup_updates_only_removes:
  "files (cleanup_updates c e t w) p = None \<or> files (cleanup_updates c e t w) p = files w p"
  by (simp add: cleanup_updates_files)

lemma fs_status_cleanup_referenced:
  "state (persisted w) = readyToInstall \<Longrightarrow>
   fs_status (files (cleanup_updates c e t w))
     (path_append (pending_updates_path c) (downloadedInstallerFilename (persisted w)))
   = fs_status (files w)
     (path_append (pending_updates_path c) (downloadedInstallerFilename (persisted w)))"
  by (simp add: fs_status_def cleanup_updates_referenced)

lemma fs_exists_cleanup_referenced:
  "state (persisted w) = readyToInstall \<Longrightarrow>
   fs_exists (files (cleanup_updates c e t w))
     (path_append (pending_updates_path c) (downloadedInstallerFilename (persisted w)))
   = fs_exists (files w)
     (path_append (pending_updates_path c) (downloadedInstallerFilename (persisted w)))"
  by (simp add: fs_exists_def fs_status_cleanup_referenced)

lemma ObtainInstaller_frame:
  "persisted (snd (ObtainInstaller c e w)) = persisted w"
  "stored (snd (ObtainInstaller c e w)) = stored w"
  "launched (snd (ObtainInstaller c e w)) = launched w"
  "close_requests (snd (ObtainInstaller c e w)) = close_requests w"
  by (simp_all add: ObtainInstaller_def cleanup_updates_simps download_new_version_def
      Logger_error_def Logger_info_def Let_def UpdateState_read_def
      split: option.splits github_version_info.splits prod.splits sum.splits bool.splits)

lemma ObtainInstaller_readyToInstall:
  assumes "state (persisted w) = readyToInstall"
    and "version_info e = Some (new_version_download_info url filename)"
  shows "ObtainInstaller c e w =
     (let w1 = cleanup_updates c e filename w;
          installer = path_append (pending_updates_path c)
                        (downloadedInstallerFilename (persisted w))
      in case fs_exists (files w) installer of
           Inl ex \<Rightarrow> (Inl ex, w1)
         | Inr False \<Rightarrow>
             (Inr (None, False),
              Logger_error (''Installer file not found: '' @ native installer) w1)
         | Inr True \<Rightarrow> (Inr (Some installer, False), w1))"
  using assms fs_exists_cleanup_referenced [OF assms(1), of c e filename]
  by (simp add: ObtainInstaller_def UpdateState_read_def Let_def)

lemma CopySelfToTempDir_frame:
  "persisted (snd (CopySelfToTempDir c e w)) = persisted w"
  "stored (snd (CopySelfToTempDir c e w)) = stored w"
  "launched (snd (CopySelfToTempDir c e w)) = launched w"
  by (simp_all add: CopySelfToTempDir_def Logger_error_def Let_def split: sum.splits)

lemma InstallNewVersionStage1_frame:
  "persisted (snd (InstallNewVersionStage1 c e p w)) = persisted w"
  "stored (snd (InstallNewVersionStage1 c e p w)) = stored w"
  using CopySelfToTempDir_frame(1,2) [of c e w]
  by (auto simp add: InstallNewVersionStage1_def Let_def
      split: option.splits prod.splits sum.splits)

lemma InstallNewVersionStage1_launched:
  "launched (snd (InstallNewVersionStage1 c e p w)) =
     (if fst (InstallNewVersionStage1 c e p w) = Inr True
      then launched w
           @ [(native (path_append (temp_path c) (filename_path ''PowerToys.Update.exe'')),
               [UPDATE_NOW_LAUNCH_STAGE2 c, native p])]
      else launched w)"
  using CopySelfToTempDir_frame(3) [of c e w]
  by (auto simp add: InstallNewVersionStage1_def Let_def CopySelfToTempDir_def
      fs_temp_directory_path_def
      split: option.splits prod.splits sum.splits entry.splits)

lemma InstallNewVersionStage2_persisted:
  "persisted (snd (InstallNewVersionStage2 e p w)) =
     (if fst (InstallNewVersionStage2 e p w)
      then default_UpdateState\<lparr>githubUpdateLastCheckedDate := Some (now e), state := upToDate\<rparr>
      else persisted w)"
  by (simp add: InstallNewVersionStage2_def Let_def UpdateState_store_simps
      Logger_error_def split: prod.splits)

lemma InstallNewVersionStage2_stored:
  "stored (snd (InstallNewVersionStage2 e p w)) =
     (if fst (InstallNewVersionStage2 e p w)
      then stored w @ [default_UpdateState\<lparr>githubUpdateLastCheckedDate := Some (now e), state := upToDate\<rparr>]
      else stored w)"
  by (simp add: InstallNewVersionStage2_def Let_def UpdateState_store_simps
      Logger_error_def split: prod.splits)

lemma WinMain_stage1:
  "WinMain c e (Some (exe # UPDATE_NOW_LAUNCH_STAGE1 c # rest)) w =
     (case ObtainInstaller c e w of
        (Inl ex, w1) \<Rightarrow> (Inl (UncaughtException ex), w1)
      | (Inr (installer, isUpToDate), w1) \<Rightarrow>
          (case (case installer of
                   None \<Rightarrow> (Inr False, w1)
                 | Some p \<Rightarrow> InstallNewVersionStage1 c e p w1) of
             (Inl ex, w2) \<Rightarrow> (Inl (UncaughtException ex), w2)
           | (Inr launched_ok, w2) \<Rightarrow>
               if \<not> launched_ok then
                 (Inr 0,
                  UpdateState_store
                    (\<lambda>s. default_UpdateState
                           \<lparr>githubUpdateLastCheckedDate := Some (now e),
                            state := (if isUpToDate then upToDate else errorDownloading)\<rparr>) w2)
               else (Inr 0, w2)))"
  by (simp add: WinMain_def)

lemma WinMain_stage2:
  "UPDATE_NOW_LAUNCH_STAGE1 c \<noteq> UPDATE_NOW_LAUNCH_STAGE2 c \<Longrightarrow>
   WinMain c e (Some (exe # UPDATE_NOW_LAUNCH_STAGE2 c # p # rest)) w =
     (case InstallNewVersionStage2 e p w of
        (ok, w1) \<Rightarrow>
          if \<not> ok then
            (Inr 0,
             UpdateState_store
               (\<lambda>s. default_UpdateState
                      \<lparr>githubUpdateLastCheckedDate := Some (now e),
                       state := errorDownloading\<rparr>) w1)
          else (Inr 0, w1))"
  by (simp add: WinMain_def)

lemma WinMain_stage2_state:
  assumes "UPDATE_NOW_LAUNCH_STAGE1 c \<noteq> UPDATE_NOW_LAUNCH_STAGE2 c"
  shows "state (persisted (snd (WinMain c e (Some (exe # UPDATE_NOW_LAUNCH_STAGE2 c # p # rest)) w)))
         = (if fst (InstallNewVersionStage2 e p w) then upToDate else errorDownloading)"
proof (cases "InstallNewVersionStage2 e p w")
  case (Pair ok w1)
  with InstallNewVersionStage2_persisted [of e p w] show ?thesis
    by (simp add: WinMain_stage2 [OF assms] UpdateState_store_simps)
qed

text \<open>
  What a stage-1 process leaves: it has stored a final state and launched nothing, or it
  has launched the relocated copy, or an exception has ended it, with nothing stored and
  nothing launched.
\<close>

lemma WinMain_stage1_cases:
  fixes c e exe rest w
  defines "r \<equiv> WinMain c e (Some (exe # UPDATE_NOW_LAUNCH_STAGE1 c # rest)) w"
  shows "(fst r = Inr 0 \<and> launched (snd r) = launched w \<and>
          (state (persisted (snd r)) = upToDate \<or> state (persisted (snd r)) = errorDownloading))
       \<or> (fst r = Inr 0 \<and>
           (\<exists>p. launched (snd r) = launched w @
                 [(native (path_append (temp_path c) (filename_path ''PowerToys.Update.exe'')),
                   [UPDATE_NOW_LAUNCH_STAGE2 c, p])]))
       \<or> (fst r = Inl (UncaughtException filesystem_error) \<and> launched (snd r) = launched w
           \<and> persisted (snd r) = persisted w \<and> stored (snd r) = stored w)"
proof (cases "ObtainInstaller c e w")
  case (Pair res wa)
  have fa: "launched wa = launched w" "persisted wa = persisted w" "stored wa = stored w"
    using ObtainInstaller_frame(1,2,3) [of c e w] Pair by simp_all
  show ?thesis
  proof (cases res)
    case (Inl ex)
    then show ?thesis
      using fa Pair by (cases ex) (simp add: r_def WinMain_stage1)
  next
    case (Inr found)
    obtain installer isUpToDate where found: "found = (installer, isUpToDate)"
      by (cases found)
    show ?thesis
    proof (cases installer)
      case None
      then show ?thesis
        using fa by (simp add: r_def WinMain_stage1 Pair Inr found UpdateState_store_simps)
    next
      case (Some p)
      obtain ok wb where s1: "InstallNewVersionStage1 c e p wa = (ok, wb)"
        by (cases "InstallNewVersionStage1 c e p wa")
      have fb: "persisted wb = persisted w" "stored wb = stored w"
        using InstallNewVersionStage1_frame [of c e p wa] s1 fa by simp_all
      show ?thesis
      proof (cases ok)
        case (Inl ex)
        then show ?thesis
          using fa fb InstallNewVersionStage1_launched [of c e p wa]
          by (cases ex) (simp add: r_def WinMain_stage1 Pair Inr found Some s1)
      next
        case (Inr launched_ok)
        then show ?thesis
          using fa fb InstallNewVersionStage1_launched [of c e p wa]
          by (auto simp add: r_def WinMain_stage1 Pair \<open>res = Inr found\<close> found Some s1
              UpdateState_store_simps)
      qed
    qed
  qed
qed

text \<open>
  A complete run in which no exception ends the stage-1 process ends with the persisted
  state \<open>upToDate\<close> or \<open>errorDownloading\<close>.
\<close>

lemma update_run_final_state_unless_aborted:
  assumes "UPDATE_NOW_LAUNCH_STAGE1 c \<noteq> UPDATE_NOW_LAUNCH_STAGE2 c"
    and "fst (WinMain c e1 (Some [native (module_filename c), UPDATE_NOW_LAUNCH_STAGE1 c]) w)
         = Inr 0"
  shows "state (persisted (update_run c e1 e2 w)) = upToDate
       \<or> state (persisted (update_run c e1 e2 w)) = errorDownloading"
proof -
  let ?r = "WinMain c e1 (Some [native (module_filename c), UPDATE_NOW_LAUNCH_STAGE1 c]) w"
  from WinMain_stage1_cases [of c e1 "native (module_filename c)" "[]" w] assms(2)
  consider (stopped) "launched (snd ?r) = launched w"
      "state (persisted (snd ?r)) = upToDate \<or> state (persisted (snd ?r)) = errorDownloading"
    | (handed_over) p where "launched (snd ?r) = launched w @
          [(native (path_append (temp_path c) (filename_path ''PowerToys.Update.exe'')),
            [UPDATE_NOW_LAUNCH_STAGE2 c, p])]"
    by auto
  then show ?thesis
  proof cases
    case stopped
    then show ?thesis by (simp add: update_run_def Let_def)
  next
    case handed_over
    then show ?thesis
      using WinMain_stage2_state [OF assms(1), of e2 _ p "[]" "snd ?r"]
      by (simp add: update_run_def Let_def)
  qed
qed

lemma exit_code_zero_iff:
  "(GetExitCodeProcess p (WaitForSingleObject p 60000) = 0)
   = (\<exists>t. p = ExitsAfter t 0 \<and> t \<le> 60000)"
  by (cases p) (auto simp add: GetExitCodeProcess_def WaitForSingleObject_def)

lemma InstallNewVersionStage2_exe:
  assumes "\<not> ends_with (map towlower p) ''.msi''" and "shell_execute_ok e"
  shows "fst (InstallNewVersionStage2 e p w)
         = (\<exists>t. installer_process e = ExitsAfter t 0 \<and> t \<le> 60000)"
  using assms exit_code_zero_iff [of "installer_process e"]
  by (simp add: InstallNewVersionStage2_def Let_def split: prod.splits)

lemma WinMain_store_cases:
  fixes c e argv w
  defines "w' \<equiv> snd (WinMain c e argv w)"
  shows "(stored w' = stored w \<and> persisted w' = persisted w)
       \<or> (stored w' = stored w @
             [default_UpdateState\<lparr>githubUpdateLastCheckedDate := Some (now e), state := upToDate\<rparr>]
           \<and> persisted w' =
             default_UpdateState\<lparr>githubUpdateLastCheckedDate := Some (now e), state := upToDate\<rparr>)
       \<or> (stored w' = stored w @
             [default_UpdateState\<lparr>githubUpdateLastCheckedDate := Some (now e),
                                   state := errorDownloading\<rparr>]
           \<and> persisted w' =
             default_UpdateState\<lparr>githubUpdateLastCheckedDate := Some (now e),
                                  state := errorDownloading\<rparr>)"
proof (cases argv)
  case None
  then show ?thesis by (simp add: w'_def WinMain_def Logger_error_def)
next
  case (Some args)
  show ?thesis
  proof (cases "length args < 2")
    case True
    then show ?thesis using Some by (simp add: w'_def WinMain_def Logger_error_def)
  next
    case False
    then obtain exe action rest where args: "args = exe # action # rest"
      by (cases args; cases "tl args") auto
    consider (s1) "action = UPDATE_NOW_LAUNCH_STAGE1 c"
      | (s2) "action \<noteq> UPDATE_NOW_LAUNCH_STAGE1 c" "action = UPDATE_NOW_LAUNCH_STAGE2 c"
      | (other) "action \<noteq> UPDATE_NOW_LAUNCH_STAGE1 c" "action \<noteq> UPDATE_NOW_LAUNCH_STAGE2 c"
      by blast
    then show ?thesis
    proof cases
      case s1
      obtain res wa where oi: "ObtainInstaller c e w = (res, wa)"
        by (cases "ObtainInstaller c e w")
      have fa: "persisted wa = persisted w" "stored wa = stored w"
        using ObtainInstaller_frame(1,2) [of c e w] oi by simp_all
      show ?thesis
      proof (cases res)
        case (Inl ex)
        then show ?thesis using fa
          by (simp add: w'_def Some args s1 WinMain_stage1 oi)
      next
        case (Inr found)
        obtain installer isUpToDate where found: "found = (installer, isUpToDate)"
          by (cases found)
        show ?thesis
        proof (cases installer)
          case None
          then show ?thesis using fa
            by (simp add: w'_def Some args s1 WinMain_stage1 oi Inr found UpdateState_store_simps)
        next
          case (Some p)
          obtain ok wb where st: "InstallNewVersionStage1 c e p wa = (ok, wb)"
            by (cases "InstallNewVersionStage1 c e p wa")
          have fb: "persisted wb = persisted w" "stored wb = stored w"
            using InstallNewVersionStage1_frame [of c e p wa] st fa by simp_all
          show ?thesis using fb
            by (cases ok)
              (simp_all add: w'_def \<open>argv = Some args\<close> args s1 WinMain_stage1 oi Inr found
                Some st UpdateState_store_simps)
        qed
      qed
    next
      case s2
      show ?thesis
      proof (cases rest)
        case Nil
        then show ?thesis using s2 by (simp add: w'_def Some args WinMain_def)
      next
        case (Cons p more)
        obtain ok wa where st: "InstallNewVersionStage2 e p w = (ok, wa)"
          by (cases "InstallNewVersionStage2 e p w")
        show ?thesis
          using s2 InstallNewVersionStage2_persisted [of e p w]
            InstallNewVersionStage2_stored [of e p w]
          by (simp add: w'_def Some args Cons WinMain_def st UpdateState_store_simps)
      qed
    next
      case other
      then show ?thesis by (simp add: w'_def Some args WinMain_def Logger_error_def)
    qed
  qed
qed

text \<open>
  The exit codes of \<open>WinMain\<close>: 1 for a missing argument vector, a missing action and an
  unknown action; 0 for stage 2 with an installer path; 0 for stage 1 unless an exception
  ends the process; and no exit code for stage 2 without an installer path.
\<close>

lemma WinMain_exit_codes:
  "fst (WinMain c e None w) = Inr 1"
  "length args < 2 \<Longrightarrow> fst (WinMain c e (Some args) w) = Inr 1"
  "action \<noteq> UPDATE_NOW_LAUNCH_STAGE1 c \<Longrightarrow> action \<noteq> UPDATE_NOW_LAUNCH_STAGE2 c \<Longrightarrow>
     fst (WinMain c e (Some (exe # action # rest)) w) = Inr 1"
  "fst (WinMain c e (Some (exe # UPDATE_NOW_LAUNCH_STAGE1 c # rest)) w) = Inr 0
   \<or> fst (WinMain c e (Some (exe # UPDATE_NOW_LAUNCH_STAGE1 c # rest)) w)
      = Inl (UncaughtException filesystem_error)"
  "UPDATE_NOW_LAUNCH_STAGE1 c \<noteq> UPDATE_NOW_LAUNCH_STAGE2 c \<Longrightarrow>
     fst (WinMain c e (Some (exe # UPDATE_NOW_LAUNCH_STAGE2 c # p # rest)) w) = Inr 0"
  "UPDATE_NOW_LAUNCH_STAGE1 c \<noteq> UPDATE_NOW_LAUNCH_STAGE2 c \<Longrightarrow>
     fst (WinMain c e (Some [exe, UPDATE_NOW_LAUNCH_STAGE2 c]) w) = Inl ArgsOutOfRange"
proof -
  show "fst (WinMain c e (Some (exe # UPDATE_NOW_LAUNCH_STAGE1 c # rest)) w) = Inr 0
   \<or> fst (WinMain c e (Some (exe # UPDATE_NOW_LAUNCH_STAGE1 c # rest)) w)
      = Inl (UncaughtException filesystem_error)"
    using WinMain_stage1_cases [of c e exe rest w] by blast
qed (simp_all add: WinMain_def Let_def split: prod.splits option.splits)

text \<open>
  A filename other than \<open>.\<close> and \<open>..\<close> appended to a directory names a file one level
  below it, so never the directory itself.
\<close>

lemma foldl_normal_step_trailing:
  "last names = [] \<Longrightarrow> names \<noteq> [] \<Longrightarrow>
   foldl (normal_step rooted) [] (butlast names) = foldl (normal_step rooted) [] names"
proof -
  assume "last names = []" "names \<noteq> []"
  then have "names = butlast names @ [[]]"
    by (metis append_butlast_last_id)
  then have "foldl (normal_step rooted) [] names
      = normal_step rooted (foldl (normal_step rooted) [] (butlast names)) []"
    by (metis foldl_Cons foldl_Nil foldl_append)
  then show ?thesis by (simp add: normal_step_def)
qed

lemma resolve_append_filename:
  assumes "name \<noteq> []" "name \<noteq> ''.''" "name \<noteq> ''..''"
  shows "resolve (path_append d (filename_path name))
         = Path (root_name d) (root_directory d) (filenames (resolve d) @ [name])"
proof (cases "filenames d = []")
  case True
  then show ?thesis using assms
    by (simp add: path_append_def filename_path_def is_absolute_def resolve_def normal_step_def)
next
  case False
  show ?thesis
  proof (cases "has_filename d")
    case True
    then show ?thesis using assms False
      by (simp add: path_append_def filename_path_def is_absolute_def resolve_def
          normal_step_def)
  next
    case no_filename: False
    with False have "last (filenames d) = []"
      by (simp add: has_filename_def)
    from foldl_normal_step_trailing [OF this False, of "root_directory d"]
    show ?thesis using assms False no_filename
      by (simp add: path_append_def filename_path_def is_absolute_def resolve_def
          normal_step_def)
  qed
qed

lemma resolve_append_filename_neq:
  assumes "name \<noteq> []" "name \<noteq> ''.''" "name \<noteq> ''..''"
  shows "resolve (path_append d (filename_path name)) \<noteq> resolve d"
  by (simp add: resolve_append_filename [OF assms]) (simp add: resolve_def)

lemma path_append_filename_shape:
  "name \<noteq> [] \<Longrightarrow>
   path_append d (filename_path name) \<noteq> empty_path
   \<and> filenames (path_append d (filename_path name)) \<noteq> []
   \<and> last (filenames (path_append d (filename_path name))) = name"
  by (simp add: path_append_def filename_path_def is_absolute_def empty_path_def)

lemma fs_status_plain:
  "p \<noteq> empty_path \<Longrightarrow> filenames p \<noteq> [] \<Longrightarrow> last (filenames p) \<noteq> [] \<Longrightarrow>
   fs_status fs p =
     (case fs (resolve p) of
        None \<Rightarrow> Inr None
      | Some Inaccessible \<Rightarrow> Inl filesystem_error
      | Some found \<Rightarrow> Inr (Some found))"
  by (simp add: fs_status_def split: option.splits entry.splits)

lemma fs_status_update_other:
  "resolve p \<noteq> k \<Longrightarrow> fs_status (fs(k \<mapsto> v)) p = fs_status fs p"
  by (simp add: fs_status_def)

lemma fs_status_regular:
  "fs_status fs p = Inr (Some (RegularFile content)) \<Longrightarrow>
   fs (resolve p) = Some (RegularFile content)"
  by (simp add: fs_status_def split: if_splits option.splits entry.splits)

lemma CopySelfToTempDir_cases:
  fixes c e w
  defines "dst \<equiv> path_append (temp_path c) (filename_path ''PowerToys.Update.exe'')"
  defines "ready \<equiv>
    fs_status (files w) (temp_path c) = Inr (Some Directory) \<and> copy_error e = None
    \<and> (\<exists>content. fs_status (files w) (module_filename c) = Inr (Some (RegularFile content)))
    \<and> (files w (resolve dst) = None
       \<or> (is_regular_file (files w) (resolve dst)
          \<and> resolve (module_filename c) \<noteq> resolve dst))"
  shows "ready \<Longrightarrow>
           fst (CopySelfToTempDir c e w) = Inr (Some dst)
           \<and> snd (CopySelfToTempDir c e w)
               = w\<lparr>files := (files w)(resolve dst := files w (resolve (module_filename c)))\<rparr>"
    and "\<not> ready \<Longrightarrow> fs_status (files w) (temp_path c) = Inr (Some Directory) \<Longrightarrow>
           fst (CopySelfToTempDir c e w) = Inr None"
    and "fs_status (files w) (temp_path c) \<noteq> Inr (Some Directory) \<Longrightarrow>
           CopySelfToTempDir c e w = (Inl filesystem_error, w)"
proof -
  have shape: "dst \<noteq> empty_path" "filenames dst \<noteq> []" "last (filenames dst) \<noteq> []"
    using path_append_filename_shape [of "''PowerToys.Update.exe''" "temp_path c"]
    by (simp_all add: dst_def)
  note to = fs_status_plain [OF shape, of "files w"]
  show "ready \<Longrightarrow>
           fst (CopySelfToTempDir c e w) = Inr (Some dst)
           \<and> snd (CopySelfToTempDir c e w)
               = w\<lparr>files := (files w)(resolve dst := files w (resolve (module_filename c)))\<rparr>"
  proof -
    assume ready
    then obtain content
      where src: "fs_status (files w) (module_filename c) = Inr (Some (RegularFile content))"
      by (auto simp add: ready_def)
    from fs_status_regular [OF src]
    have key: "files w (resolve (module_filename c)) = Some (RegularFile content)" .
    show ?thesis
      using \<open>ready\<close> to src
      by (auto simp add: ready_def CopySelfToTempDir_def fs_temp_directory_path_def
          copy_file_overwrite_def Let_def dst_def [symmetric] is_regular_file_def key
          split: option.splits entry.splits)
  qed
  show "\<not> ready \<Longrightarrow> fs_status (files w) (temp_path c) = Inr (Some Directory) \<Longrightarrow>
           fst (CopySelfToTempDir c e w) = Inr None"
    using to
    by (auto simp add: ready_def CopySelfToTempDir_def fs_temp_directory_path_def
        copy_file_overwrite_def Let_def dst_def [symmetric] is_regular_file_def
        split: option.splits entry.splits sum.splits)
  show "fs_status (files w) (temp_path c) \<noteq> Inr (Some Directory) \<Longrightarrow>
           CopySelfToTempDir c e w = (Inl filesystem_error, w)"
    by (auto simp add: CopySelfToTempDir_def fs_temp_directory_path_def
        split: option.splits entry.splits sum.splits exception.splits)
qed

section \<open>The state after a complete run\<close>

text \<open>
  C1. A complete run must end with the persisted state \<open>upToDate\<close> or \<open>errorDownloading\<close>.
  It does so whenever no exception ends the stage-1 process (lemma
  \<open>update_run_final_state_unless_aborted\<close>). But \<open>CopySelfToTempDir\<close> calls
  \<open>fs::temp_directory_path\<close> without the \<open>error_code\<close> it has just declared: in a world
  without the temporary directory, with a new version offered and downloaded, the call
  throws, nothing catches the exception, and the run ends with nothing stored and the
  persisted state still \<open>readyToDownload\<close>.
\<close>

theorem update_run_aborted_leaves_state:
  "fst (WinMain example_config example_env
          (Some [native (module_filename example_config), ''-update_now''])
          example_no_temp_world)
     = Inl (UncaughtException filesystem_error)
   \<and> state (persisted (update_run example_config example_env example_env example_no_temp_world))
       = readyToDownload
   \<and> stored (update_run example_config example_env example_env example_no_temp_world) = []
   \<and> downloads (update_run example_config example_env example_env example_no_temp_world) = 1"
  by (simp add: run_defs path_defs fixture_defs)

section \<open>Cleanup of the pending-updates directory\<close>

text \<open>
  C2. When the acquirer runs the cleanup (the version query offers a new version), every
  file that exists before the call and is gone after it lies in the pending-updates
  directory and is not the file of the current target filename; and when the persisted
  state is \<open>readyToInstall\<close>, the file named by \<open>downloadedInstallerFilename\<close> is after
  the call what it was before: the cleanup never deletes it.
\<close>

theorem ObtainInstaller_cleanup_deletes_only_stale:
  assumes "version_info e = Some (new_version_download_info url filename)"
  shows "(\<forall>p. files w p \<noteq> None \<and> files (snd (ObtainInstaller c e w)) p = None \<longrightarrow>
            in_directory (resolve (pending_updates_path c)) p
            \<and> p \<noteq> resolve (path_append (pending_updates_path c) filename))
       \<and> (state (persisted w) = readyToInstall \<longrightarrow>
            files (snd (ObtainInstaller c e w))
              (resolve (path_append (pending_updates_path c)
                          (downloadedInstallerFilename (persisted w))))
            = files w
              (resolve (path_append (pending_updates_path c)
                          (downloadedInstallerFilename (persisted w)))))"
proof (intro conjI allI impI)
  fix p
  assume lost: "files w p \<noteq> None \<and> files (snd (ObtainInstaller c e w)) p = None"
  have "files (cleanup_updates c e filename w) p = None"
    using lost assms
    by (auto simp add: ObtainInstaller_def Let_def download_new_version_def Logger_error_def
        split: if_splits option.splits prod.splits sum.splits bool.splits)
  with lost have "stale_artifact c (persisted w) filename p"
    by (auto simp add: cleanup_updates_files split: if_splits)
  then show "in_directory (resolve (pending_updates_path c)) p"
    and "p \<noteq> resolve (path_append (pending_updates_path c) filename)"
    by (simp_all add: stale_artifact_def)
next
  assume "state (persisted w) = readyToInstall"
  then show "files (snd (ObtainInstaller c e w))
              (resolve (path_append (pending_updates_path c)
                          (downloadedInstallerFilename (persisted w))))
            = files w
              (resolve (path_append (pending_updates_path c)
                          (downloadedInstallerFilename (persisted w))))"
    using cleanup_updates_referenced [of w c e filename]
    by (simp add: ObtainInstaller_readyToInstall [OF _ assms] Let_def Logger_error_def
        split: sum.splits bool.splits)
qed

theorem ObtainInstaller_cleanup_deletes_only_stale_witness:
  "version_info example_env
     = Some (new_version_download_info ''https://example.org/setup.exe''
               (filename_path ''setup.exe''))
   \<and> state (persisted example_ready_world) = readyToInstall
   \<and> files (snd (ObtainInstaller example_config example_env example_ready_world))
        (Path ''C:'' True [''Updates'', ''setup-old.exe'']) = Some (RegularFile ''old installer'')
   \<and> files example_ready_world (Path ''C:'' True [''Updates'', ''leftover.exe''])
        = Some (RegularFile ''stale'')
   \<and> files (snd (ObtainInstaller example_config example_env example_ready_world))
        (Path ''C:'' True [''Updates'', ''leftover.exe'']) = None
   \<and> in_directory (Path ''C:'' True [''Updates'']) (Path ''C:'' True [''Updates'', ''leftover.exe''])"
proof -
  have v: "version_info example_env =
      Some (new_version_download_info ''https://example.org/setup.exe''
              (filename_path ''setup.exe''))"
    by (simp add: example_env_def)
  have r: "state (persisted example_ready_world) = readyToInstall"
    by (simp add: example_ready_world_def)
  have before: "files example_ready_world (Path ''C:'' True [''Updates'', ''leftover.exe''])
      = Some (RegularFile ''stale'')"
    by (simp add: example_ready_world_def)
  have after: "files (snd (ObtainInstaller example_config example_env example_ready_world))
        (Path ''C:'' True [''Updates'', ''leftover.exe'']) = None"
    by (simp add: run_defs path_defs fixture_defs)
  have kept: "files example_ready_world (Path ''C:'' True [''Updates'', ''setup-old.exe''])
      = Some (RegularFile ''old installer'')"
    by (simp add: example_ready_world_def)
  have key: "resolve (path_append (pending_updates_path example_config)
                (downloadedInstallerFilename (persisted example_ready_world)))
      = Path ''C:'' True [''Updates'', ''setup-old.exe'']"
    by (simp add: path_defs fixture_defs)
  have dir: "resolve (pending_updates_path example_config) = Path ''C:'' True [''Updates'']"
    by (simp add: path_defs fixture_defs)
  from ObtainInstaller_cleanup_deletes_only_stale [OF v, of example_ready_world example_config]
  show ?thesis
    using v r before after kept key dir by simp
qed

section \<open>Exit codes\<close>

text \<open>
  C3. Selecting stage 2 without the installer path: the argument vector has two elements,
  the check \<open>nArgs < 2\<close> passes, the action is the stage-2 action, and \<open>WinMain\<close> reads
  \<open>args[2]\<close> beyond the vector. It neither logs an error nor returns a non-zero exit
  code. (The other cases of the claim are the lemma \<open>WinMain_exit_codes\<close>.)
\<close>

theorem WinMain_missing_installer_argument:
  "WinMain example_config example_env (Some [''PowerToys.Update.exe'', ''-update_now_stage_2''])
     example_world = (Inl ArgsOutOfRange, example_world)"
  by (simp add: WinMain_def example_config_def)

section \<open>The timestamp of a failed query\<close>

text \<open>
  C4, as stated, fails: in a stage-1 run whose version query fails, the record written at
  the end of the run carries the time of that run as \<open>githubUpdateLastCheckedDate\<close>.
\<close>

theorem query_failed_timestamp_counterexample:
  "version_info (example_env\<lparr>version_info := None\<rparr>) = None
   \<and> now (example_env\<lparr>version_info := None\<rparr>) = 1700000000
   \<and> githubUpdateLastCheckedDate (persisted example_world) = None
   \<and> githubUpdateLastCheckedDate
       (persisted (snd (WinMain example_config (example_env\<lparr>version_info := None\<rparr>)
          (Some [''PowerToys.Update.exe'', ''-update_now'']) example_world)))
     = Some 1700000000"
  by (simp add: WinMain_def ObtainInstaller_def UpdateState_store_def UpdateState_read_def
      Logger_error_def fixture_defs Let_def)

text \<open>
  C4, amended. Every stage-1 run whose version query fails writes the default record with
  state \<open>errorDownloading\<close> and with the time of that run as its timestamp: the timestamp
  is the time of the updater's last write, whether or not the query succeeded.
\<close>

theorem WinMain_query_failed_sets_timestamp:
  assumes "version_info e = None"
  shows "persisted (snd (WinMain c e (Some (exe # UPDATE_NOW_LAUNCH_STAGE1 c # rest)) w))
         = default_UpdateState
             \<lparr>githubUpdateLastCheckedDate := Some (now e), state := errorDownloading\<rparr>"
  using assms
  by (simp add: WinMain_stage1 ObtainInstaller_def UpdateState_store_simps)

theorem WinMain_query_failed_sets_timestamp_witness:
  "version_info (example_env\<lparr>version_info := None\<rparr>) = None
   \<and> persisted (snd (WinMain example_config (example_env\<lparr>version_info := None\<rparr>)
        (Some [''PowerToys.Update.exe'', UPDATE_NOW_LAUNCH_STAGE1 example_config]) example_world))
     = \<lparr>githubUpdateLastCheckedDate = Some 1700000000, state = errorDownloading,
        downloadedInstallerFilename = empty_path\<rparr>"
proof -
  have q: "version_info (example_env\<lparr>version_info := None\<rparr>) = None"
    by simp
  from WinMain_query_failed_sets_timestamp
         [OF q, of example_config "''PowerToys.Update.exe''" "[]" example_world]
  show ?thesis
    by (simp add: example_env_def default_UpdateState_def)
qed

section \<open>Reusing a downloaded installer\<close>

text \<open>
  C5. With persisted state \<open>readyToInstall\<close>, the recorded file present in the
  pending-updates directory and a version query that offers a new version, two successive
  calls of \<open>ObtainInstaller\<close> both return the path of the recorded file, and neither call
  downloads anything (the download counter stays where it was).
\<close>

theorem ObtainInstaller_reuse_twice:
  assumes "state (persisted w) = readyToInstall"
    and "fs_exists (files w)
           (path_append (pending_updates_path c) (downloadedInstallerFilename (persisted w)))
         = Inr True"
    and "version_info e1 = Some (new_version_download_info url1 filename1)"
    and "version_info e2 = Some (new_version_download_info url2 filename2)"
  shows "fst (ObtainInstaller c e1 w) =
           Inr (Some (path_append (pending_updates_path c)
                        (downloadedInstallerFilename (persisted w))), False)
       \<and> fst (ObtainInstaller c e2 (snd (ObtainInstaller c e1 w))) =
           Inr (Some (path_append (pending_updates_path c)
                        (downloadedInstallerFilename (persisted w))), False)
       \<and> downloads (snd (ObtainInstaller c e1 w)) = downloads w
       \<and> downloads (snd (ObtainInstaller c e2 (snd (ObtainInstaller c e1 w)))) = downloads w"
proof -
  let ?installer = "path_append (pending_updates_path c)
                      (downloadedInstallerFilename (persisted w))"
  let ?w1 = "cleanup_updates c e1 filename1 w"
  have first: "ObtainInstaller c e1 w = (Inr (Some ?installer, False), ?w1)"
    using assms(2) by (simp add: ObtainInstaller_readyToInstall [OF assms(1,3)] Let_def)
  have st1: "state (persisted ?w1) = readyToInstall"
    and fn1: "downloadedInstallerFilename (persisted ?w1) = downloadedInstallerFilename (persisted w)"
    using assms(1) by (simp_all add: cleanup_updates_simps)
  have ex1: "fs_exists (files ?w1) ?installer = Inr True"
    using assms(2) fs_exists_cleanup_referenced [OF assms(1), of c e1 filename1] by simp
  have second: "ObtainInstaller c e2 ?w1 =
      (Inr (Some ?installer, False), cleanup_updates c e2 filename2 ?w1)"
    using ex1 by (simp add: ObtainInstaller_readyToInstall [OF st1 assms(4)] Let_def fn1)
  show ?thesis
    by (simp add: first second cleanup_updates_simps)
qed

theorem ObtainInstaller_reuse_twice_witness:
  "state (persisted example_ready_world) = readyToInstall
   \<and> fs_exists (files example_ready_world)
       (path_append (pending_updates_path example_config)
          (downloadedInstallerFilename (persisted example_ready_world))) = Inr True
   \<and> fst (ObtainInstaller example_config example_env example_ready_world)
       = Inr (Some (Path ''C:'' True [''Updates'', ''setup-old.exe'']), False)
   \<and> fst (ObtainInstaller example_config example_env
            (snd (ObtainInstaller example_config example_env example_ready_world)))
       = Inr (Some (Path ''C:'' True [''Updates'', ''setup-old.exe'']), False)
   \<and> downloads (snd (ObtainInstaller example_config example_env
            (snd (ObtainInstaller example_config example_env example_ready_world)))) = 0"
proof -
  have v: "version_info example_env =
      Some (new_version_download_info ''https://example.org/setup.exe''
              (filename_path ''setup.exe''))"
    by (simp add: example_env_def)
  have r: "state (persisted example_ready_world) = readyToInstall"
    by (simp add: example_ready_world_def)
  have f: "fs_exists (files example_ready_world)
       (path_append (pending_updates_path example_config)
          (downloadedInstallerFilename (persisted example_ready_world))) = Inr True"
    by (simp add: path_defs fixture_defs)
  have p: "path_append (pending_updates_path example_config)
          (downloadedInstallerFilename (persisted example_ready_world))
      = Path ''C:'' True [''Updates'', ''setup-old.exe'']"
    by (simp add: path_defs fixture_defs)
  have d: "downloads example_ready_world = 0"
    by (simp add: example_ready_world_def example_world_def)
  from ObtainInstaller_reuse_twice [OF r f v v]
  show ?thesis
    using r f p d by simp
qed



section \<open>Stage 2 on an executable installer\<close>

text \<open>
  C7. Stage 2 on a path that does not end in \<open>.msi\<close> (case-insensitively), whose process
  has been launched: when the process has not exited within the wait of 60000
  milliseconds, or exits with a non-zero code, \<open>InstallNewVersionStage2\<close> reports failure
  and the run ends with persisted state \<open>errorDownloading\<close>; when it exits within the
  wait with code 0, stage 2 reports success (and the run ends with \<open>upToDate\<close>).
\<close>

theorem Stage2_executable_outcome:
  assumes "UPDATE_NOW_LAUNCH_STAGE1 c \<noteq> UPDATE_NOW_LAUNCH_STAGE2 c"
    and "\<not> ends_with (map towlower p) ''.msi''"
    and "shell_execute_ok e"
  shows "(installer_process e = NeverExits
          \<or> (\<exists>t code. installer_process e = ExitsAfter t code \<and> (60000 < t \<or> code \<noteq> 0))
          \<longrightarrow> \<not> fst (InstallNewVersionStage2 e p w)
              \<and> state (persisted (snd (WinMain c e (Some [exe, UPDATE_NOW_LAUNCH_STAGE2 c, p]) w)))
                  = errorDownloading)
       \<and> ((\<exists>t. installer_process e = ExitsAfter t 0 \<and> t \<le> 60000)
          \<longrightarrow> fst (InstallNewVersionStage2 e p w)
              \<and> state (persisted (snd (WinMain c e (Some [exe, UPDATE_NOW_LAUNCH_STAGE2 c, p]) w)))
                  = upToDate)"
  using InstallNewVersionStage2_exe [OF assms(2,3), of w]
  by (auto simp add: WinMain_stage2_state [OF assms(1)])

theorem Stage2_executable_outcome_witness:
  "UPDATE_NOW_LAUNCH_STAGE1 example_config \<noteq> UPDATE_NOW_LAUNCH_STAGE2 example_config
   \<and> \<not> ends_with (map towlower ''Update.EXE'') ''.msi''
   \<and> shell_execute_ok (example_env\<lparr>installer_process := NeverExits\<rparr>)
   \<and> \<not> fst (InstallNewVersionStage2 (example_env\<lparr>installer_process := NeverExits\<rparr>)
              ''Update.EXE'' example_world)
   \<and> state (persisted (snd (WinMain example_config (example_env\<lparr>installer_process := NeverExits\<rparr>)
        (Some [''PowerToys.Update.exe'', UPDATE_NOW_LAUNCH_STAGE2 example_config, ''Update.EXE''])
        example_world))) = errorDownloading
   \<and> \<not> fst (InstallNewVersionStage2 (example_env\<lparr>installer_process := ExitsAfter 60001 0\<rparr>)
              ''Update.EXE'' example_world)
   \<and> \<not> fst (InstallNewVersionStage2 (example_env\<lparr>installer_process := ExitsAfter 5000 3\<rparr>)
              ''Update.EXE'' example_world)
   \<and> installer_process example_env = ExitsAfter 5000 0
   \<and> fst (InstallNewVersionStage2 example_env ''Update.EXE'' example_world)"
proof -
  have h: "UPDATE_NOW_LAUNCH_STAGE1 example_config \<noteq> UPDATE_NOW_LAUNCH_STAGE2 example_config"
    by (simp add: example_config_def)
  have x: "\<not> ends_with (map towlower ''Update.EXE'') ''.msi''"
    by (simp add: ends_with_def towlower_def)
  have l1: "shell_execute_ok (example_env\<lparr>installer_process := NeverExits\<rparr>)"
    and l2: "shell_execute_ok (example_env\<lparr>installer_process := ExitsAfter 60001 0\<rparr>)"
    and l3: "shell_execute_ok (example_env\<lparr>installer_process := ExitsAfter 5000 3\<rparr>)"
    and l0: "shell_execute_ok example_env"
    by (simp_all add: example_env_def)
  have s0: "installer_process example_env = ExitsAfter 5000 0"
    by (simp add: example_env_def)
  from Stage2_executable_outcome [OF h x l1, of example_world "''PowerToys.Update.exe''"]
    Stage2_executable_outcome [OF h x l2, of example_world "''PowerToys.Update.exe''"]
    Stage2_executable_outcome [OF h x l3, of example_world "''PowerToys.Update.exe''"]
    Stage2_executable_outcome [OF h x l0, of example_world "''PowerToys.Update.exe''"]
  show ?thesis
    using h x l1 s0 by simp
qed

section \<open>The acquirer does not write the persisted record\<close>

text \<open>
  C8. For every persisted record and every answer of the version query, \<open>ObtainInstaller\<close>
  leaves the persisted record as it was and performs no store; on a failed query it
  returns no installer, with \<open>isUpToDate\<close> false, and the record is unchanged.
\<close>

theorem ObtainInstaller_leaves_record:
  "persisted (snd (ObtainInstaller c e w)) = persisted w
   \<and> stored (snd (ObtainInstaller c e w)) = stored w
   \<and> fst (ObtainInstaller c (e\<lparr>version_info := None\<rparr>) w) = Inr (None, False)
   \<and> persisted (snd (ObtainInstaller c (e\<lparr>version_info := None\<rparr>) w)) = persisted w"
  by (simp add: ObtainInstaller_frame) (simp add: ObtainInstaller_def)

theorem ObtainInstaller_leaves_record_witness:
  "persisted (snd (ObtainInstaller example_config example_env example_ready_world))
     = \<lparr>githubUpdateLastCheckedDate = Some 1600000000, state = readyToInstall,
        downloadedInstallerFilename = filename_path ''setup-old.exe''\<rparr>
   \<and> stored (snd (ObtainInstaller example_config example_env example_ready_world)) = []
   \<and> fst (ObtainInstaller example_config (example_env\<lparr>version_info := None\<rparr>) example_ready_world)
       = Inr (None, False)"
  using ObtainInstaller_leaves_record [of example_config example_env example_ready_world]
  by (simp add: example_ready_world_def example_world_def)

section \<open>The records the updater writes\<close>

text \<open>
  C9. Every record that a run of \<open>WinMain\<close> stores is the default record with the time of
  the run as timestamp and state \<open>upToDate\<close> or \<open>errorDownloading\<close>; so it is never
  \<open>readyToDownload\<close> or \<open>readyToInstall\<close>, its \<open>downloadedInstallerFilename\<close> is empty,
  it satisfies the invariant of the record, and a run keeps the invariant of the persisted
  record.
\<close>

theorem WinMain_writes:
  "(\<forall>r \<in> set (drop (length (stored w)) (stored (snd (WinMain c e argv w)))).
       (r = default_UpdateState\<lparr>githubUpdateLastCheckedDate := Some (now e), state := upToDate\<rparr>
        \<or> r = default_UpdateState\<lparr>githubUpdateLastCheckedDate := Some (now e),
                                     state := errorDownloading\<rparr>)
       \<and> state r \<noteq> readyToDownload \<and> state r \<noteq> readyToInstall
       \<and> downloadedInstallerFilename r = empty_path
       \<and> UpdateState_inv r)
   \<and> (UpdateState_inv (persisted w) \<longrightarrow> UpdateState_inv (persisted (snd (WinMain c e argv w))))"
  using WinMain_store_cases [of c e argv w]
  by (auto simp add: UpdateState_inv_def default_UpdateState_def)

theorem WinMain_writes_witness:
  "stored (snd (WinMain example_config (example_env\<lparr>version_info := Some version_up_to_date\<rparr>)
      (Some [''PowerToys.Update.exe'', ''-update_now'']) example_ready_world))
     = [\<lparr>githubUpdateLastCheckedDate = Some 1700000000, state = upToDate,
         downloadedInstallerFilename = empty_path\<rparr>]
   \<and> UpdateState_inv (persisted example_ready_world)
   \<and> UpdateState_inv
       (persisted (snd (WinMain example_config
          (example_env\<lparr>version_info := Some version_up_to_date\<rparr>)
          (Some [''PowerToys.Update.exe'', ''-update_now'']) example_ready_world)))"
proof -
  have run: "stored (snd (WinMain example_config
      (example_env\<lparr>version_info := Some version_up_to_date\<rparr>)
      (Some [''PowerToys.Update.exe'', ''-update_now'']) example_ready_world))
     = [\<lparr>githubUpdateLastCheckedDate = Some 1700000000, state = upToDate,
         downloadedInstallerFilename = empty_path\<rparr>]"
    by (simp add: WinMain_def ObtainInstaller_def UpdateState_store_def UpdateState_read_def
        Logger_info_def example_config_def example_env_def example_world_def
        example_ready_world_def default_UpdateState_def Let_def)
  have inv: "UpdateState_inv (persisted example_ready_world)"
    by (simp add: UpdateState_inv_def example_ready_world_def empty_path_def filename_path_def)
  from WinMain_writes [of example_ready_world example_config
         "example_env\<lparr>version_info := Some version_up_to_date\<rparr>"
         "Some [''PowerToys.Update.exe'', ''-update_now'']"]
  show ?thesis
    using run inv by simp
qed

section \<open>Relocating the updater\<close>

text \<open>
  C10. \<open>CopySelfToTempDir\<close> returns, when it returns a path, the one path made of the
  temporary directory and \<open>PowerToys.Update.exe\<close>, whatever the world and the environment
  of the run, so that every run targets the same file. After a success that file holds the
  content of the running module, nothing is logged and no other file has changed; and a
  copy left there by an earlier run changes neither the result nor, after a success, the
  resulting files: it is overwritten.
\<close>

theorem CopySelfToTempDir_fixed_destination:
  "(fst (CopySelfToTempDir c e w) = Inl filesystem_error
    \<or> fst (CopySelfToTempDir c e w) = Inr None
    \<or> fst (CopySelfToTempDir c e w)
        = Inr (Some (path_append (temp_path c) (filename_path ''PowerToys.Update.exe''))))
   \<and> (fst (CopySelfToTempDir c e w)
        = Inr (Some (path_append (temp_path c) (filename_path ''PowerToys.Update.exe''))) \<longrightarrow>
        files (snd (CopySelfToTempDir c e w))
          (resolve (path_append (temp_path c) (filename_path ''PowerToys.Update.exe'')))
        = files w (resolve (module_filename c))
        \<and> files w (resolve (module_filename c)) \<noteq> None
        \<and> logged (snd (CopySelfToTempDir c e w)) = logged w
        \<and> (\<forall>p. p \<noteq> resolve (path_append (temp_path c) (filename_path ''PowerToys.Update.exe''))
               \<longrightarrow> files (snd (CopySelfToTempDir c e w)) p = files w p))
   \<and> (resolve (module_filename c)
        \<noteq> resolve (path_append (temp_path c) (filename_path ''PowerToys.Update.exe''))
      \<and> (files w (resolve (path_append (temp_path c) (filename_path ''PowerToys.Update.exe'')))
            = None
          \<or> is_regular_file (files w)
               (resolve (path_append (temp_path c) (filename_path ''PowerToys.Update.exe''))))
      \<longrightarrow>
        fst (CopySelfToTempDir c e
               (w\<lparr>files := (files w)
                     (resolve (path_append (temp_path c) (filename_path ''PowerToys.Update.exe''))
                        \<mapsto> RegularFile earlier_copy)\<rparr>))
        = fst (CopySelfToTempDir c e w)
        \<and> (fst (CopySelfToTempDir c e w)
              = Inr (Some (path_append (temp_path c) (filename_path ''PowerToys.Update.exe'')))
            \<longrightarrow>
             files (snd (CopySelfToTempDir c e
               (w\<lparr>files := (files w)
                     (resolve (path_append (temp_path c) (filename_path ''PowerToys.Update.exe''))
                        \<mapsto> RegularFile earlier_copy)\<rparr>)))
             = files (snd (CopySelfToTempDir c e w))))"
proof -
  let ?dst = "path_append (temp_path c) (filename_path ''PowerToys.Update.exe'')"
  let ?ready = "\<lambda>w. fs_status (files w) (temp_path c) = Inr (Some Directory)
    \<and> copy_error e = None
    \<and> (\<exists>content. fs_status (files w) (module_filename c) = Inr (Some (RegularFile content)))
    \<and> (files w (resolve ?dst) = None
       \<or> (is_regular_file (files w) (resolve ?dst)
          \<and> resolve (module_filename c) \<noteq> resolve ?dst))"
  let ?w2 = "w\<lparr>files := (files w)(resolve ?dst \<mapsto> RegularFile earlier_copy)\<rparr>"
  note cases = CopySelfToTempDir_cases [of _ c e]
  have outcome: "(?ready v \<and> fst (CopySelfToTempDir c e v) = Inr (Some ?dst))
      \<or> (\<not> ?ready v \<and> fst (CopySelfToTempDir c e v) = Inr None)
      \<or> (\<not> ?ready v \<and> fst (CopySelfToTempDir c e v) = Inl filesystem_error)" for v
  proof (cases "?ready v")
    case True
    from cases(1) [OF True] True show ?thesis by simp
  next
    case False
    show ?thesis
    proof (cases "fs_status (files v) (temp_path c) = Inr (Some Directory)")
      case True
      from cases(2) [OF False True] False show ?thesis by simp
    next
      case no_temp: False
      from cases(3) [OF no_temp] False show ?thesis by simp
    qed
  qed
  have success: "?ready v" if "fst (CopySelfToTempDir c e v) = Inr (Some ?dst)" for v
    using that outcome [of v] by auto
  have part2: "files (snd (CopySelfToTempDir c e w)) (resolve ?dst)
          = files w (resolve (module_filename c))
        \<and> files w (resolve (module_filename c)) \<noteq> None
        \<and> logged (snd (CopySelfToTempDir c e w)) = logged w
        \<and> (\<forall>p. p \<noteq> resolve ?dst \<longrightarrow> files (snd (CopySelfToTempDir c e w)) p = files w p)"
    if ok: "fst (CopySelfToTempDir c e w) = Inr (Some ?dst)"
  proof -
    from success [OF ok] obtain content
      where "fs_status (files w) (module_filename c) = Inr (Some (RegularFile content))"
      by blast
    from fs_status_regular [OF this]
    have "files w (resolve (module_filename c)) \<noteq> None" by simp
    then show ?thesis
      using cases(1) [OF success [OF ok]] by simp
  qed
  have part3: "fst (CopySelfToTempDir c e ?w2) = fst (CopySelfToTempDir c e w)
        \<and> (fst (CopySelfToTempDir c e w) = Inr (Some ?dst) \<longrightarrow>
             files (snd (CopySelfToTempDir c e ?w2)) = files (snd (CopySelfToTempDir c e w)))"
    if other: "resolve (module_filename c) \<noteq> resolve ?dst"
      and plain: "files w (resolve ?dst) = None \<or> is_regular_file (files w) (resolve ?dst)"
  proof -
    have apart: "resolve (temp_path c) \<noteq> resolve ?dst"
      using resolve_append_filename_neq [of "''PowerToys.Update.exe''" "temp_path c"]
      by simp
    have temp: "fs_status ((files w)(resolve ?dst \<mapsto> RegularFile earlier_copy)) (temp_path c)
        = fs_status (files w) (temp_path c)"
      using apart by (simp add: fs_status_update_other)
    have src: "fs_status ((files w)(resolve ?dst \<mapsto> RegularFile earlier_copy))
          (module_filename c)
        = fs_status (files w) (module_filename c)"
      using other by (simp add: fs_status_update_other)
    have key: "files ?w2 (resolve (module_filename c)) = files w (resolve (module_filename c))"
      using other by simp
    have same: "?ready ?w2 = ?ready w"
      using other plain by (auto simp add: temp src is_regular_file_def)
    show ?thesis
    proof (cases "?ready w")
      case True
      with same have "?ready ?w2" by simp
      from cases(1) [OF this] cases(1) [OF True] key show ?thesis
        by simp
    next
      case False
      with same have no: "\<not> ?ready ?w2" by simp
      show ?thesis
      proof (cases "fs_status (files w) (temp_path c) = Inr (Some Directory)")
        case True
        from cases(2) [OF False True] cases(2) [OF no] True temp show ?thesis
          by simp
      next
        case False
        from cases(3) [OF False] cases(3) [of ?w2] False temp show ?thesis
          by simp
      qed
    qed
  qed
  have part1: "fst (CopySelfToTempDir c e w) = Inl filesystem_error
      \<or> fst (CopySelfToTempDir c e w) = Inr None
      \<or> fst (CopySelfToTempDir c e w) = Inr (Some ?dst)"
    using outcome [of w] by auto
  show ?thesis
    apply (rule conjI)
     apply (rule part1)
    apply (rule conjI)
     apply (rule impI)
     apply (erule part2)
    apply (rule impI)
    apply (erule conjE)
    apply (rule part3)
     apply assumption+
    done
qed


theorem CopySelfToTempDir_fixed_destination_witness:
  "fst (CopySelfToTempDir example_config example_env example_world)
     = Inr (Some (Path ''C:'' True [''Temp'', ''PowerToys.Update.exe'']))
   \<and> files (snd (CopySelfToTempDir example_config example_env example_world))
        (Path ''C:'' True [''Temp'', ''PowerToys.Update.exe'']) = Some (RegularFile ''updater'')
   \<and> resolve (module_filename example_config)
        \<noteq> Path ''C:'' True [''Temp'', ''PowerToys.Update.exe'']
   \<and> files example_world (Path ''C:'' True [''Temp'', ''PowerToys.Update.exe'']) = None
   \<and> fst (CopySelfToTempDir example_config example_env
            (example_world\<lparr>files := (files example_world)
               (Path ''C:'' True [''Temp'', ''PowerToys.Update.exe'']
                  \<mapsto> RegularFile ''copy of an earlier run'')\<rparr>))
     = Inr (Some (Path ''C:'' True [''Temp'', ''PowerToys.Update.exe'']))
   \<and> files (snd (CopySelfToTempDir example_config example_env
            (example_world\<lparr>files := (files example_world)
               (Path ''C:'' True [''Temp'', ''PowerToys.Update.exe'']
                  \<mapsto> RegularFile ''copy of an earlier run'')\<rparr>)))
        (Path ''C:'' True [''Temp'', ''PowerToys.Update.exe'']) = Some (RegularFile ''updater'')"
proof -
  have dst: "path_append (temp_path example_config) (filename_path ''PowerToys.Update.exe'')
      = Path ''C:'' True [''Temp'', ''PowerToys.Update.exe'']"
    and key: "resolve (Path ''C:'' True [''Temp'', ''PowerToys.Update.exe''])
      = Path ''C:'' True [''Temp'', ''PowerToys.Update.exe'']"
    by (simp_all add: path_defs fixture_defs)
  have ok: "fst (CopySelfToTempDir example_config example_env example_world)
     = Inr (Some (Path ''C:'' True [''Temp'', ''PowerToys.Update.exe'']))"
    by (simp add: run_defs path_defs fixture_defs)
  have m: "resolve (module_filename example_config)
      \<noteq> Path ''C:'' True [''Temp'', ''PowerToys.Update.exe'']"
    by (simp add: path_defs fixture_defs)
  have src: "files example_world (resolve (module_filename example_config))
      = Some (RegularFile ''updater'')"
    by (simp add: path_defs fixture_defs)
  have free: "files example_world (Path ''C:'' True [''Temp'', ''PowerToys.Update.exe'']) = None"
    by (simp add: fixture_defs)
  from CopySelfToTempDir_fixed_destination
         [of example_config example_env example_world "''copy of an earlier run''"]
  show ?thesis
    using ok m src free by (simp add: dst key)
qed

end
